theory Spec2Isabelle
  imports Complex_Main "HOL-Library.Word"
begin

section \<open>Strings of the program\<close>

text \<open>
  A string of the program is a sequence of 16-bit code units. Literals are written
  through \<open>js\<close>, which maps each character of a HOL string (a byte) to the code
  unit of the same number.
\<close>

type_synonym cu = "16 word"
type_synonym jsstring = "cu list"

definition cu_of_char :: "char \<Rightarrow> cu" where
  "cu_of_char c = of_nat (of_char c)"

definition js :: "string \<Rightarrow> jsstring" where
  "js s = map cu_of_char s"

definition NL :: cu where
  "NL = 0x0A"

definition DQUOTE :: cu where
  "DQUOTE = 0x22"

definition BACKSLASH :: cu where
  "BACKSLASH = 0x5C"

text \<open>
  \<open>String.prototype.trim\<close> removes the code units of WhiteSpace and LineTerminator
  from both ends: TAB, LF, VT, FF, CR, SP, NBSP, U+1680, U+2000 to U+200A, LS, PS,
  U+202F, U+205F, U+3000 and the byte order mark.
\<close>

definition is_ws :: "cu \<Rightarrow> bool" where
  "is_ws c =
     (c = 0x09 \<or> c = 0x0A \<or> c = 0x0B \<or> c = 0x0C \<or> c = 0x0D \<or> c = 0x20 \<or> c = 0xA0
      \<or> c = 0x1680 \<or> (0x2000 \<le> c \<and> c \<le> 0x200A) \<or> c = 0x2028 \<or> c = 0x2029
      \<or> c = 0x202F \<or> c = 0x205F \<or> c = 0x3000 \<or> c = 0xFEFF)"

definition trim :: "jsstring \<Rightarrow> jsstring" where
  "trim s = rev (dropWhile is_ws (rev (dropWhile is_ws s)))"

text \<open>
  \<open>s.split(d)\<close> for a separator of one code unit: the segments between the
  occurrences of the separator, in order; the empty string gives one empty segment.
\<close>

fun split_on :: "cu \<Rightarrow> jsstring \<Rightarrow> jsstring list" where
  "split_on d [] = [[]]"
| "split_on d (c # cs) =
     (let r = split_on d cs in if c = d then [] # r else (c # hd r) # tl r)"

text \<open>\<open>xs.join(sep)\<close> on an array of strings.\<close>

fun join :: "jsstring \<Rightarrow> jsstring list \<Rightarrow> jsstring" where
  "join sep [] = []"
| "join sep [x] = x"
| "join sep (x # y # ys) = x @ sep @ join sep (y # ys)"

section \<open>The regular expressions of cleanWithRegex\<close>

text \<open>
  A matcher takes the string from the position where a match is attempted and returns
  what is left after the match, or \<open>None\<close> when the pattern does not match there.
\<close>

fun strip_prefix :: "jsstring \<Rightarrow> jsstring \<Rightarrow> jsstring option" where
  "strip_prefix [] s = Some s"
| "strip_prefix (p # ps) [] = None"
| "strip_prefix (p # ps) (c # cs) = (if p = c then strip_prefix ps cs else None)"

text \<open>
  Under the \<open>i\<close> flag (without \<open>u\<close>) two code units match when their
  canonical forms are equal. A code unit of 128 or more is never canonicalised to one
  below 128, so against the ASCII text of the style pattern only the ASCII letters fold.
\<close>

definition canonicalize :: "cu \<Rightarrow> cu" where
  "canonicalize c = (if 0x61 \<le> c \<and> c \<le> 0x7A then c - 0x20 else c)"

fun strip_prefix_ci :: "jsstring \<Rightarrow> jsstring \<Rightarrow> jsstring option" where
  "strip_prefix_ci [] s = Some s"
| "strip_prefix_ci (p # ps) [] = None"
| "strip_prefix_ci (p # ps) (c # cs) =
     (if canonicalize p = canonicalize c then strip_prefix_ci ps cs else None)"

text \<open>What follows the first occurrence of a code unit: \<open>[^d]*d\<close>.\<close>

fun after_first :: "cu \<Rightarrow> jsstring \<Rightarrow> jsstring option" where
  "after_first d [] = None"
| "after_first d (c # cs) = (if c = d then Some cs else after_first d cs)"

text \<open>\<open>[^d]+d\<close>: at least one code unit other than \<open>d\<close>, then \<open>d\<close>.\<close>

fun after_first1 :: "cu \<Rightarrow> jsstring \<Rightarrow> jsstring option" where
  "after_first1 d [] = None"
| "after_first1 d (c # cs) = (if c = d then None else after_first d cs)"

text \<open>
  \<open>[\s\S]*?pat\<close> under the \<open>i\<close> flag: what follows the first occurrence of
  \<open>pat\<close>.
\<close>

fun after_first_ci :: "jsstring \<Rightarrow> jsstring \<Rightarrow> jsstring option" where
  "after_first_ci pat [] = strip_prefix_ci pat []"
| "after_first_ci pat (c # cs) =
     (case strip_prefix_ci pat (c # cs) of
        Some r \<Rightarrow> Some r
      | None \<Rightarrow> after_first_ci pat cs)"

text \<open>\<^verbatim>\<open>/<style[^>]*>[\s\S]*?<\/style>/gi\<close>\<close>

definition match_style :: "jsstring \<Rightarrow> jsstring option" where
  "match_style s =
     (case strip_prefix_ci (js ''<style'') s of
        None \<Rightarrow> None
      | Some r \<Rightarrow>
          (case after_first (cu_of_char CHR ''>'') r of
             None \<Rightarrow> None
           | Some r2 \<Rightarrow> after_first_ci (js ''</style>'') r2))"

text \<open>\<^verbatim>\<open>/<div[^>]*>/g\<close>\<close>

definition match_div :: "jsstring \<Rightarrow> jsstring option" where
  "match_div s =
     (case strip_prefix (js ''<div'') s of
        None \<Rightarrow> None
      | Some r \<Rightarrow> after_first (cu_of_char CHR ''>'') r)"

text \<open>\<^verbatim>\<open>/<[^>]+>/g\<close>\<close>

definition match_tag :: "jsstring \<Rightarrow> jsstring option" where
  "match_tag s =
     (case strip_prefix (js ''<'') s of
        None \<Rightarrow> None
      | Some r \<Rightarrow> after_first1 (cu_of_char CHR ''>'') r)"

text \<open>\<^verbatim>\<open>/\[anki:play:[^\]]+\]/g\<close>\<close>

definition match_play :: "jsstring \<Rightarrow> jsstring option" where
  "match_play s =
     (case strip_prefix (js ''[anki:play:'') s of
        None \<Rightarrow> None
      | Some r \<Rightarrow> after_first1 (cu_of_char CHR '']'') r)"

text \<open>
  \<open>s.replace(re, rep)\<close> with a global pattern and a replacement text without
  \<open>$\<close>: the matches are found from left to right, each search starting where the
  last match ended; a code unit where no match starts is copied. After an empty match
  the search moves on by one code unit, which is copied.
\<close>

function replace_all :: "(jsstring \<Rightarrow> jsstring option) \<Rightarrow> jsstring \<Rightarrow> jsstring \<Rightarrow> jsstring" where
  "replace_all m rep [] = (case m [] of Some r \<Rightarrow> rep | None \<Rightarrow> [])"
| "replace_all m rep (c # cs) =
     (case m (c # cs) of
        None \<Rightarrow> c # replace_all m rep cs
      | Some r \<Rightarrow>
          if length r < length (c # cs) then rep @ replace_all m rep r
          else rep @ c # replace_all m rep cs)"
  by pat_completeness auto
termination
  by (relation "measure (\<lambda>(m, rep, s). length s)") auto

section \<open>cleanWithRegex\<close>

definition cleanWithRegex :: "jsstring \<Rightarrow> jsstring" where
  "cleanWithRegex htmlString =
     (let s1 = replace_all match_style [] htmlString;
          s2 = replace_all match_div [NL] s1;
          s3 = replace_all match_tag (js '' '') s2;
          s4 = replace_all match_play [] s3;
          s5 = replace_all (strip_prefix (js ''&nbsp;'')) (js '' '') s4;
          s6 = replace_all (strip_prefix (js ''&amp;'')) (js ''&'') s5;
          s7 = replace_all (strip_prefix (js ''&lt;'')) (js ''<'') s6;
          s8 = replace_all (strip_prefix (js ''&gt;'')) (js ''>'') s7;
          s9 = replace_all (strip_prefix (js ''&quot;'')) [DQUOTE] s8
      in join [NL] (filter (\<lambda>line. length line > 0) (map trim (split_on NL s9))))"

section \<open>Values of the program\<close>

text \<open>
  A number is a double. The model keeps the three values that are not finite apart and
  holds a finite one as the rational it denotes; the sign of zero plays no part in what
  the program does with numbers (printing, slicing, comparing).
\<close>

datatype number = NaN | PosInfinity | NegInfinity | Finite rat

text \<open>
  A value received as JSON: the argument bag of a tool call and the results of the
  backend. A value that may be \<open>undefined\<close> is a \<open>json option\<close>. The properties
  of an object are listed in the order the object enumerates them.
\<close>

datatype json =
    JNull
  | JBool bool
  | JNum number
  | JStr jsstring
  | JArr "json list"
  | JObj "(jsstring \<times> json) list"

text \<open>
  What the language runtime supplies and the repository does not define: the numeric
  value of a string (\<open>StringToNumber\<close>), the digits of a finite number that is not
  an integer of magnitude up to \<open>2^53\<close>, and the message of the TypeError raised
  when a property or method of a value cannot be used or a value cannot be converted.
\<close>

record runtime =
  stringToNumber :: "jsstring \<Rightarrow> number"
  numberToString :: "rat \<Rightarrow> jsstring"
  typeErrorMessage :: "json option \<Rightarrow> jsstring \<Rightarrow> jsstring"

definition digit :: "nat \<Rightarrow> cu" where
  "digit d = 0x30 + of_nat d"

fun show_nat :: "nat \<Rightarrow> jsstring" where
  "show_nat n = (if n < 10 then [digit n] else show_nat (n div 10) @ [digit (n mod 10)])"

declare show_nat.simps [simp del]

definition show_int :: "int \<Rightarrow> jsstring" where
  "show_int i = (if i < 0 then js ''-'' @ show_nat (nat (- i)) else show_nat (nat i))"

text \<open>
  \<open>Number::toString\<close>, radix 10. An integer of magnitude up to \<open>2^53\<close> prints
  with all its decimal digits. Beyond that the language prints the shortest digits that
  read back as the same double, which are not the digits of the integer in general;
  these texts, like those of the numbers that are not integers, are the runtime's.
\<close>

definition number_to_string :: "runtime \<Rightarrow> number \<Rightarrow> jsstring" where
  "number_to_string rt n =
     (case n of
        NaN \<Rightarrow> js ''NaN''
      | PosInfinity \<Rightarrow> js ''Infinity''
      | NegInfinity \<Rightarrow> js ''-Infinity''
      | Finite r \<Rightarrow>
          if r = of_int \<lfloor>r\<rfloor> \<and> \<bar>r\<bar> \<le> 2 ^ 53 then show_int \<lfloor>r\<rfloor>
          else numberToString rt r)"

definition num_of_int :: "int \<Rightarrow> json" where
  "num_of_int i = JNum (Finite (of_int i))"

text \<open>
  \<open>ToString\<close> of a defined value: the text, or the message of the TypeError it
  raises (\<open>Inl\<close>). An object is converted through its \<open>toString\<close> method and
  then its \<open>valueOf\<close> method. In a value received as JSON no property is callable,
  so an object with an own property \<open>toString\<close> has no method that returns a
  primitive value and the conversion raises a TypeError; every other object inherits
  the method that prints \<open>[object Object]\<close>. An array prints as its elements joined
  by commas, \<open>null\<close> elements as nothing, converting the elements in order and
  raising what the first failing element raises.
\<close>

fun to_string :: "runtime \<Rightarrow> json \<Rightarrow> jsstring + jsstring"
  and to_strings :: "runtime \<Rightarrow> json list \<Rightarrow> jsstring + jsstring list" where
  "to_string rt JNull = Inr (js ''null'')"
| "to_string rt (JBool b) = Inr (if b then js ''true'' else js ''false'')"
| "to_string rt (JNum n) = Inr (number_to_string rt n)"
| "to_string rt (JStr s) = Inr s"
| "to_string rt (JArr xs) =
     (case to_strings rt xs of
        Inl e \<Rightarrow> Inl e
      | Inr ss \<Rightarrow> Inr (join (js '','') ss))"
| "to_string rt (JObj kvs) =
     (if map_of kvs (js ''toString'') = None then Inr (js ''[object Object]'')
      else Inl (typeErrorMessage rt (Some (JObj kvs)) (js ''toString'')))"
| "to_strings rt [] = Inr []"
| "to_strings rt (x # xs) =
     (case (if x = JNull then Inr [] else to_string rt x) of
        Inl e \<Rightarrow> Inl e
      | Inr s \<Rightarrow>
          (case to_strings rt xs of
             Inl e \<Rightarrow> Inl e
           | Inr ss \<Rightarrow> Inr (s # ss)))"

text \<open>
  The same for the elements of an array that may be \<open>undefined\<close>, which print as
  nothing.
\<close>

fun strings_of :: "runtime \<Rightarrow> json option list \<Rightarrow> jsstring + jsstring list" where
  "strings_of rt [] = Inr []"
| "strings_of rt (x # xs) =
     (case (case x of None \<Rightarrow> Inr [] | Some y \<Rightarrow> if y = JNull then Inr [] else to_string rt y) of
        Inl e \<Rightarrow> Inl e
      | Inr s \<Rightarrow>
          (case strings_of rt xs of
             Inl e \<Rightarrow> Inl e
           | Inr ss \<Rightarrow> Inr (s # ss)))"

text \<open>
  A computation of the handler: the backend calls it made, in order, and either the
  message of the error it raised (\<open>Inl\<close>) or its value.
\<close>

datatype call =
    FindCards jsstring
  | CardsInfo "json option"
  | AnswerCards "json option"
  | AddNote jsstring jsstring jsstring jsstring
  | DeckNames
  | DeckNamesAndIds
  | CreateDeck jsstring
  | DeleteDecks "json option" bool
  | GetDeckStats "json option"
  | ChangeDeck "json option" jsstring
  | Suspend "json option"
  | Unsuspend "json option"
  | AreSuspended "json option"
  | AreDue "json option"
  | ForgetCards "json option"
  | GetEaseFactors "json option"
  | SetEaseFactors "json option" "json option"

type_synonym 'a result = "call list \<times> (jsstring + 'a)"

definition pure :: "'a \<Rightarrow> 'a result" where
  "pure v = ([], Inr v)"

definition throw :: "jsstring \<Rightarrow> 'a result" where
  "throw msg = ([], Inl msg)"

definition invoke :: "call \<Rightarrow> (jsstring + 'a) \<Rightarrow> 'a result" where
  "invoke c r = ([c], r)"

definition bind_r :: "'a result \<Rightarrow> ('a \<Rightarrow> 'b result) \<Rightarrow> 'b result" where
  "bind_r m f =
     (case m of
        (cs, Inl e) \<Rightarrow> (cs, Inl e)
      | (cs, Inr v) \<Rightarrow> (case f v of (cs', r) \<Rightarrow> (cs @ cs', r)))"

text \<open>A step that makes no backend call and may raise.\<close>

definition attempt :: "jsstring + 'a \<Rightarrow> 'a result" where
  "attempt r = ([], r)"

text \<open>\<open>String(v)\<close> and \<open>${v}\<close>.\<close>

definition String_of :: "runtime \<Rightarrow> json option \<Rightarrow> jsstring result" where
  "String_of rt v =
     (case v of
        None \<Rightarrow> pure (js ''undefined'')
      | Some x \<Rightarrow> attempt (to_string rt x))"

text \<open>
  \<open>Number(v)\<close>: an array or an object is converted through its string, and raises
  the TypeError that conversion raises.
\<close>

definition Number_of :: "runtime \<Rightarrow> json option \<Rightarrow> number result" where
  "Number_of rt v =
     (case v of
        None \<Rightarrow> pure NaN
      | Some JNull \<Rightarrow> pure (Finite 0)
      | Some (JBool b) \<Rightarrow> pure (if b then Finite 1 else Finite 0)
      | Some (JNum n) \<Rightarrow> pure n
      | Some (JStr s) \<Rightarrow> pure (stringToNumber rt s)
      | Some x \<Rightarrow> bind_r (attempt (to_string rt x)) (\<lambda>s. pure (stringToNumber rt s)))"

text \<open>
  \<open>v.length\<close>: a TypeError on \<open>undefined\<close> and \<open>null\<close>, the number of elements
  of an array, the number of code units of a string, the property of that name of an
  object, and \<open>undefined\<close> on a boolean or a number.
\<close>

definition length_of :: "runtime \<Rightarrow> json option \<Rightarrow> (json option) result" where
  "length_of rt v =
     (case v of
        None \<Rightarrow> throw (typeErrorMessage rt v (js ''length''))
      | Some JNull \<Rightarrow> throw (typeErrorMessage rt v (js ''length''))
      | Some (JArr xs) \<Rightarrow> pure (Some (num_of_int (int (length xs))))
      | Some (JStr s) \<Rightarrow> pure (Some (num_of_int (int (length s))))
      | Some (JObj kvs) \<Rightarrow> pure (map_of kvs (js ''length''))
      | Some x \<Rightarrow> pure None)"

text \<open>
  \<open>v.join(sep)\<close>: only an array has the method; \<open>undefined\<close> and \<open>null\<close>
  elements print as nothing, and an element that cannot be converted raises.
\<close>

definition join_elems :: "runtime \<Rightarrow> jsstring \<Rightarrow> json option list \<Rightarrow> jsstring result" where
  "join_elems rt sep xs =
     bind_r (attempt (strings_of rt xs)) (\<lambda>ss. pure (join sep ss))"

definition join_of :: "runtime \<Rightarrow> json option \<Rightarrow> jsstring \<Rightarrow> jsstring result" where
  "join_of rt v sep =
     (case v of
        Some (JArr xs) \<Rightarrow> join_elems rt sep (map Some xs)
      | _ \<Rightarrow> throw (typeErrorMessage rt v (js ''join'')))"

text \<open>
  \<open>a !== b\<close> is the negation of \<open>strict_equals\<close>. Two arrays or objects are equal
  only when they are the same object; the operands compared by the handler are
  properties of two different arguments, so never the same object.
\<close>

definition number_equals :: "number \<Rightarrow> number \<Rightarrow> bool" where
  "number_equals a b = (a \<noteq> NaN \<and> a = b)"

definition strict_equals :: "json option \<Rightarrow> json option \<Rightarrow> bool" where
  "strict_equals a b =
     (case (a, b) of
        (None, None) \<Rightarrow> True
      | (Some JNull, Some JNull) \<Rightarrow> True
      | (Some (JBool x), Some (JBool y)) \<Rightarrow> x = y
      | (Some (JNum x), Some (JNum y)) \<Rightarrow> number_equals x y
      | (Some (JStr x), Some (JStr y)) \<Rightarrow> x = y
      | _ \<Rightarrow> False)"

section \<open>JSON.stringify\<close>

definition hex_digit :: "nat \<Rightarrow> cu" where
  "hex_digit n = (if n < 10 then 0x30 + of_nat n else 0x61 + of_nat (n - 10))"

definition unicode_escape :: "cu \<Rightarrow> jsstring" where
  "unicode_escape c =
     (let n = unat c
      in BACKSLASH # cu_of_char CHR ''u''
           # map hex_digit [n div 4096, n div 256 mod 16, n div 16 mod 16, n mod 16])"

definition is_high_surrogate :: "cu \<Rightarrow> bool" where
  "is_high_surrogate c = (0xD800 \<le> c \<and> c \<le> 0xDBFF)"

definition is_low_surrogate :: "cu \<Rightarrow> bool" where
  "is_low_surrogate c = (0xDC00 \<le> c \<and> c \<le> 0xDFFF)"

text \<open>One code unit that is not part of a surrogate pair, as \<open>QuoteJSONString\<close> writes it.\<close>

definition quote_unit :: "cu \<Rightarrow> jsstring" where
  "quote_unit c =
     (if c = 0x08 then [BACKSLASH, cu_of_char CHR ''b'']
      else if c = 0x09 then [BACKSLASH, cu_of_char CHR ''t'']
      else if c = 0x0A then [BACKSLASH, cu_of_char CHR ''n'']
      else if c = 0x0C then [BACKSLASH, cu_of_char CHR ''f'']
      else if c = 0x0D then [BACKSLASH, cu_of_char CHR ''r'']
      else if c = 0x22 then [BACKSLASH, DQUOTE]
      else if c = 0x5C then [BACKSLASH, BACKSLASH]
      else if c < 0x20 \<or> is_high_surrogate c \<or> is_low_surrogate c then unicode_escape c
      else [c])"

fun quote_body :: "jsstring \<Rightarrow> jsstring" where
  "quote_body [] = []"
| "quote_body [c] = quote_unit c"
| "quote_body (c # d # cs) =
     (if is_high_surrogate c \<and> is_low_surrogate d then c # d # quote_body cs
      else quote_unit c @ quote_body (d # cs))"

definition quote_json :: "jsstring \<Rightarrow> jsstring" where
  "quote_json s = DQUOTE # quote_body s @ [DQUOTE]"

text \<open>
  \<open>JSON.stringify(v, null, gap)\<close> on a value without functions, symbols or
  \<open>undefined\<close>: \<open>gap\<close> is the indentation unit (empty for the call with one
  argument, two spaces for \<open>JSON.stringify(v, null, 2)\<close>), \<open>ind\<close> the current
  indentation.
\<close>

definition wrap_items :: "jsstring \<Rightarrow> jsstring \<Rightarrow> jsstring \<Rightarrow> jsstring \<Rightarrow> jsstring list \<Rightarrow> jsstring" where
  "wrap_items opening closing gap ind items =
     (if items = [] then opening @ closing
      else if gap = [] then opening @ join (js '','') items @ closing
      else opening @ [NL] @ ind @ gap @ join (js '','' @ [NL] @ ind @ gap) items
             @ [NL] @ ind @ closing)"

fun serialize :: "runtime \<Rightarrow> jsstring \<Rightarrow> jsstring \<Rightarrow> json \<Rightarrow> jsstring" where
  "serialize rt gap ind JNull = js ''null''"
| "serialize rt gap ind (JBool b) = (if b then js ''true'' else js ''false'')"
| "serialize rt gap ind (JNum n) =
     (case n of Finite r \<Rightarrow> number_to_string rt n | _ \<Rightarrow> js ''null'')"
| "serialize rt gap ind (JStr s) = quote_json s"
| "serialize rt gap ind (JArr xs) =
     wrap_items (js ''['') (js '']'') gap ind (map (serialize rt gap (ind @ gap)) xs)"
| "serialize rt gap ind (JObj kvs) =
     wrap_items (js ''{'') (js ''}'') gap ind
       (map (\<lambda>kv. quote_json (fst kv) @ js '':'' @ (if gap = [] then [] else js '' '')
                   @ serialize rt gap (ind @ gap) (snd kv)) kvs)"

definition JSON_stringify :: "runtime \<Rightarrow> json \<Rightarrow> jsstring" where
  "JSON_stringify rt v = serialize rt [] [] v"

definition JSON_stringify2 :: "runtime \<Rightarrow> json \<Rightarrow> jsstring" where
  "JSON_stringify2 rt v = serialize rt (js ''  '') [] v"

section \<open>The backend\<close>

record Card =
  cardId :: int
  question :: jsstring
  answer :: jsstring
  due :: int

text \<open>
  A detail record of the backend: the four properties findCardsAndOrder reads, typed
  as the client library declares them (identifier and due value are integers), and the
  whole record as JSON, which get_cards_info prints.
\<close>

record card_info = Card +
  raw :: json

text \<open>
  The backend client: each operation answers with a value or fails, the failure held as
  the message the dispatcher's catch block reads from it.
\<close>

record backend =
  findCards :: "jsstring \<Rightarrow> jsstring + int list"
  cardsInfo :: "json option \<Rightarrow> jsstring + card_info list"
  answerCards :: "json option \<Rightarrow> jsstring + bool list"
  addNote :: "jsstring \<Rightarrow> jsstring \<Rightarrow> jsstring \<Rightarrow> jsstring \<Rightarrow> jsstring + json"
  deckNames :: "jsstring + json"
  deckNamesAndIds :: "jsstring + json"
  createDeck :: "jsstring \<Rightarrow> jsstring + json"
  deleteDecks :: "json option \<Rightarrow> bool \<Rightarrow> jsstring + unit"
  getDeckStats :: "json option \<Rightarrow> jsstring + json"
  changeDeck :: "json option \<Rightarrow> jsstring \<Rightarrow> jsstring + unit"
  suspend :: "json option \<Rightarrow> jsstring + unit"
  unsuspend :: "json option \<Rightarrow> jsstring + unit"
  areSuspended :: "json option \<Rightarrow> jsstring + json"
  areDue :: "json option \<Rightarrow> jsstring + json"
  forgetCards :: "json option \<Rightarrow> jsstring + unit"
  getEaseFactors :: "json option \<Rightarrow> jsstring + json"
  setEaseFactors :: "json option \<Rightarrow> json option \<Rightarrow> jsstring + unit"

section \<open>findCardsAndOrder\<close>

text \<open>
  \<open>Array.prototype.sort\<close> with a comparator is stable, and for a consistent
  comparator (here the difference of two integers) its result is the one stable
  ordering of the array. The model inserts each element, from the right, before the
  first element it does not have to follow.
\<close>

fun insort_by :: "('a \<Rightarrow> 'a \<Rightarrow> int) \<Rightarrow> 'a \<Rightarrow> 'a list \<Rightarrow> 'a list" where
  "insort_by cmp x [] = [x]"
| "insort_by cmp x (y # ys) =
     (if cmp x y \<le> 0 then x # y # ys else y # insort_by cmp x ys)"

definition sort_by :: "('a \<Rightarrow> 'a \<Rightarrow> int) \<Rightarrow> 'a list \<Rightarrow> 'a list" where
  "sort_by cmp xs = foldr (insort_by cmp) xs []"

definition findCardsAndOrder :: "backend \<Rightarrow> jsstring \<Rightarrow> (Card list) result" where
  "findCardsAndOrder be query =
     bind_r (invoke (FindCards query) (findCards be query)) (\<lambda>cardIds.
       if length cardIds = 0 then pure []
       else
         let ids = Some (JArr (map num_of_int cardIds))
         in bind_r (invoke (CardsInfo ids) (cardsInfo be ids)) (\<lambda>infos.
              pure (sort_by (\<lambda>a b. due a - due b)
                (map (\<lambda>card. \<lparr>cardId = cardId card,
                                question = cleanWithRegex (question card),
                                answer = cleanWithRegex (answer card),
                                due = due card\<rparr>) infos))))"

section \<open>The tools\<close>

type_synonym arguments = "jsstring \<Rightarrow> json option"

definition card_json :: "Card \<Rightarrow> json" where
  "card_json c =
     JObj [(js ''cardId'', num_of_int (cardId c)), (js ''question'', JStr (question c)),
           (js ''answer'', JStr (answer c)), (js ''due'', num_of_int (due c))]"

text \<open>
  \<open>xs.slice(0, end)\<close>: the end is truncated to an integer (\<open>NaN\<close> to 0), counted
  from the end of the array when negative, and clamped to the array.
\<close>

definition slice_end :: "int \<Rightarrow> number \<Rightarrow> int" where
  "slice_end len n =
     (case n of
        NaN \<Rightarrow> 0
      | PosInfinity \<Rightarrow> len
      | NegInfinity \<Rightarrow> 0
      | Finite r \<Rightarrow>
          (let t = (if r < 0 then \<lceil>r\<rceil> else \<lfloor>r\<rfloor>)
           in if t < 0 then max (len + t) 0 else min t len))"

definition slice0 :: "number \<Rightarrow> 'a list \<Rightarrow> 'a list" where
  "slice0 n xs = take (nat (slice_end (int (length xs)) n)) xs"

text \<open>\<open>xs.filter((_, index) => p(index))\<close>\<close>

definition filter_index :: "(nat \<Rightarrow> bool) \<Rightarrow> 'a list \<Rightarrow> 'a list" where
  "filter_index p xs = map fst (filter (\<lambda>xi. p (snd xi)) (zip xs [0..<length xs]))"

text \<open>\<open>result[index]\<close> as a condition: \<open>undefined\<close> beyond the end of the array.\<close>

definition truthy_at :: "bool list \<Rightarrow> nat \<Rightarrow> bool" where
  "truthy_at result index = (index < length result \<and> result ! index)"

text \<open>\<open>card.cardId\<close> on an element of the answers array.\<close>

definition cardId_of :: "runtime \<Rightarrow> json \<Rightarrow> (json option) result" where
  "cardId_of rt item =
     (case item of
        JNull \<Rightarrow> throw (typeErrorMessage rt (Some JNull) (js ''cardId''))
      | JObj kvs \<Rightarrow> pure (map_of kvs (js ''cardId''))
      | _ \<Rightarrow> pure None)"

text \<open>\<open>xs.map(f)\<close> where \<open>f\<close> may raise: the first error ends the loop.\<close>

fun map_r :: "('a \<Rightarrow> 'b result) \<Rightarrow> 'a list \<Rightarrow> ('b list) result" where
  "map_r f [] = pure []"
| "map_r f (x # xs) = bind_r (f x) (\<lambda>y. bind_r (map_r f xs) (\<lambda>ys. pure (y # ys)))"

definition tool_update_cards :: "runtime \<Rightarrow> backend \<Rightarrow> arguments \<Rightarrow> jsstring result" where
  "tool_update_cards rt be args =
     (let answers = args (js ''answers'')
      in bind_r (invoke (AnswerCards answers) (answerCards be answers)) (\<lambda>result.
           case answers of
             Some (JArr items) \<Rightarrow>
               bind_r (map_r (cardId_of rt) (filter_index (\<lambda>index. truthy_at result index) items))
                 (\<lambda>successfulCards.
                   let failedCards = filter_index (\<lambda>index. \<not> truthy_at result index) items
                   in if length failedCards > 0 then
                        bind_r (map_r (cardId_of rt) failedCards) (\<lambda>failedCardIds.
                          bind_r (join_elems rt (js '', '') failedCardIds) (\<lambda>joined.
                            throw (js ''Failed to update cards with IDs: '' @ joined)))
                      else
                        bind_r (join_elems rt (js '', '') successfulCards) (\<lambda>joined.
                          pure (js ''Updated cards '' @ joined)))
           | _ \<Rightarrow> throw (typeErrorMessage rt answers (js ''filter''))))"

definition tool_add_card :: "runtime \<Rightarrow> backend \<Rightarrow> arguments \<Rightarrow> jsstring result" where
  "tool_add_card rt be args =
     bind_r (String_of rt (args (js ''front''))) (\<lambda>front.
       bind_r (String_of rt (args (js ''back''))) (\<lambda>back.
         bind_r (invoke (AddNote (js ''Default'') (js ''Basic'') front back)
                   (addNote be (js ''Default'') (js ''Basic'') front back)) (\<lambda>noteId.
           bind_r (String_of rt (Some noteId)) (\<lambda>nid.
             let query = js ''nid:'' @ nid
             in bind_r (invoke (FindCards query) (findCards be query)) (\<lambda>found.
                  let cardId = (case found of [] \<Rightarrow> None | i # rest \<Rightarrow> Some (num_of_int i))
                  in bind_r (String_of rt cardId) (\<lambda>shown.
                       pure (js ''Created card with id '' @ shown)))))))"

definition tool_get_due_cards :: "runtime \<Rightarrow> backend \<Rightarrow> arguments \<Rightarrow> jsstring result" where
  "tool_get_due_cards rt be args =
     bind_r (Number_of rt (args (js ''num''))) (\<lambda>num.
       bind_r (findCardsAndOrder be (js ''is:due'')) (\<lambda>cards.
         pure (JSON_stringify rt (JArr (map card_json (slice0 num cards))))))"

definition tool_get_new_cards :: "runtime \<Rightarrow> backend \<Rightarrow> arguments \<Rightarrow> jsstring result" where
  "tool_get_new_cards rt be args =
     bind_r (Number_of rt (args (js ''num''))) (\<lambda>num.
       bind_r (findCardsAndOrder be (js ''is:new'')) (\<lambda>cards.
         pure (JSON_stringify rt (JArr (map card_json (slice0 num cards))))))"

definition tool_list_decks :: "runtime \<Rightarrow> backend \<Rightarrow> arguments \<Rightarrow> jsstring result" where
  "tool_list_decks rt be args =
     bind_r (invoke DeckNames (deckNames be)) (\<lambda>names. pure (JSON_stringify rt names))"

definition tool_list_decks_with_ids :: "runtime \<Rightarrow> backend \<Rightarrow> arguments \<Rightarrow> jsstring result" where
  "tool_list_decks_with_ids rt be args =
     bind_r (invoke DeckNamesAndIds (deckNamesAndIds be)) (\<lambda>decksWithIds.
       pure (JSON_stringify rt decksWithIds))"

definition tool_create_deck :: "runtime \<Rightarrow> backend \<Rightarrow> arguments \<Rightarrow> jsstring result" where
  "tool_create_deck rt be args =
     bind_r (String_of rt (args (js ''deck''))) (\<lambda>deckName.
       bind_r (invoke (CreateDeck deckName) (createDeck be deckName)) (\<lambda>result.
         bind_r (String_of rt (Some result)) (\<lambda>shown.
           pure (js ''Created deck '' @ [DQUOTE] @ deckName @ [DQUOTE] @ js '' with ID: ''
                   @ shown))))"

definition tool_delete_decks :: "runtime \<Rightarrow> backend \<Rightarrow> arguments \<Rightarrow> jsstring result" where
  "tool_delete_decks rt be args =
     (let deckNames = args (js ''decks'')
      in bind_r (invoke (DeleteDecks deckNames True) (deleteDecks be deckNames True)) (\<lambda>u.
           bind_r (join_of rt deckNames (js '', '')) (\<lambda>joined.
             pure (js ''Deleted decks: '' @ joined))))"

definition tool_get_deck_stats :: "runtime \<Rightarrow> backend \<Rightarrow> arguments \<Rightarrow> jsstring result" where
  "tool_get_deck_stats rt be args =
     (let deckNames = args (js ''decks'')
      in bind_r (invoke (GetDeckStats deckNames) (getDeckStats be deckNames)) (\<lambda>stats.
           pure (JSON_stringify2 rt stats)))"

definition tool_move_cards_to_deck :: "runtime \<Rightarrow> backend \<Rightarrow> arguments \<Rightarrow> jsstring result" where
  "tool_move_cards_to_deck rt be args =
     (let cardIds = args (js ''cards'')
      in bind_r (String_of rt (args (js ''deck''))) (\<lambda>targetDeck.
           bind_r (invoke (ChangeDeck cardIds targetDeck) (changeDeck be cardIds targetDeck)) (\<lambda>u.
             bind_r (length_of rt cardIds) (\<lambda>n.
               bind_r (String_of rt n) (\<lambda>shown.
                 pure (js ''Moved '' @ shown @ js '' cards to deck '' @ [DQUOTE]
                         @ targetDeck @ [DQUOTE]))))))"

definition tool_get_cards_info :: "runtime \<Rightarrow> backend \<Rightarrow> arguments \<Rightarrow> jsstring result" where
  "tool_get_cards_info rt be args =
     (let cardIds = args (js ''cards'')
      in bind_r (invoke (CardsInfo cardIds) (cardsInfo be cardIds)) (\<lambda>infos.
           pure (JSON_stringify2 rt (JArr (map raw infos)))))"

text \<open>
  The text \<open>${cardIds.length} cards<mid>${cardIds.join(", ")}\<close> of three tools: each
  substitution is evaluated and converted to a string before the next one is evaluated.
\<close>

definition count_and_ids :: "runtime \<Rightarrow> json option \<Rightarrow> jsstring \<Rightarrow> jsstring \<Rightarrow> jsstring result" where
  "count_and_ids rt cardIds before mid =
     bind_r (length_of rt cardIds) (\<lambda>n.
       bind_r (String_of rt n) (\<lambda>shown.
         bind_r (join_of rt cardIds (js '', '')) (\<lambda>joined.
           pure (before @ shown @ mid @ joined))))"

definition tool_suspend_cards :: "runtime \<Rightarrow> backend \<Rightarrow> arguments \<Rightarrow> jsstring result" where
  "tool_suspend_cards rt be args =
     (let cardIds = args (js ''cards'')
      in bind_r (invoke (Suspend cardIds) (suspend be cardIds)) (\<lambda>u.
           count_and_ids rt cardIds (js ''Suspended '') (js '' cards: '')))"

definition tool_unsuspend_cards :: "runtime \<Rightarrow> backend \<Rightarrow> arguments \<Rightarrow> jsstring result" where
  "tool_unsuspend_cards rt be args =
     (let cardIds = args (js ''cards'')
      in bind_r (invoke (Unsuspend cardIds) (unsuspend be cardIds)) (\<lambda>u.
           count_and_ids rt cardIds (js ''Unsuspended '') (js '' cards: '')))"

definition tool_check_suspended_status :: "runtime \<Rightarrow> backend \<Rightarrow> arguments \<Rightarrow> jsstring result" where
  "tool_check_suspended_status rt be args =
     (let cardIds = args (js ''cards'')
      in bind_r (invoke (AreSuspended cardIds) (areSuspended be cardIds)) (\<lambda>suspendedStatus.
           pure (JSON_stringify rt suspendedStatus)))"

definition tool_check_due_status :: "runtime \<Rightarrow> backend \<Rightarrow> arguments \<Rightarrow> jsstring result" where
  "tool_check_due_status rt be args =
     (let cardIds = args (js ''cards'')
      in bind_r (invoke (AreDue cardIds) (areDue be cardIds)) (\<lambda>dueStatus.
           pure (JSON_stringify rt dueStatus)))"

definition tool_forget_cards :: "runtime \<Rightarrow> backend \<Rightarrow> arguments \<Rightarrow> jsstring result" where
  "tool_forget_cards rt be args =
     (let cardIds = args (js ''cards'')
      in bind_r (invoke (ForgetCards cardIds) (forgetCards be cardIds)) (\<lambda>u.
           count_and_ids rt cardIds (js ''Reset '') (js '' cards to new status: '')))"

definition tool_get_ease_factors :: "runtime \<Rightarrow> backend \<Rightarrow> arguments \<Rightarrow> jsstring result" where
  "tool_get_ease_factors rt be args =
     (let cardIds = args (js ''cards'')
      in bind_r (invoke (GetEaseFactors cardIds) (getEaseFactors be cardIds)) (\<lambda>easeFactors.
           pure (JSON_stringify rt easeFactors)))"

definition tool_set_ease_factors :: "runtime \<Rightarrow> backend \<Rightarrow> arguments \<Rightarrow> jsstring result" where
  "tool_set_ease_factors rt be args =
     (let cardIds = args (js ''cards'');
          easeFactors = args (js ''easeFactors'')
      in bind_r (length_of rt cardIds) (\<lambda>n.
           bind_r (length_of rt easeFactors) (\<lambda>m.
             if \<not> strict_equals n m then
               throw (js ''Cards and easeFactors arrays must have the same length'')
             else
               bind_r (invoke (SetEaseFactors cardIds easeFactors)
                         (setEaseFactors be cardIds easeFactors)) (\<lambda>u.
                 bind_r (length_of rt cardIds) (\<lambda>k.
                   bind_r (String_of rt k) (\<lambda>shown.
                     pure (js ''Set ease factors for '' @ shown @ js '' cards'')))))))"

definition tool_get_all_cards_in_deck :: "runtime \<Rightarrow> backend \<Rightarrow> arguments \<Rightarrow> jsstring result" where
  "tool_get_all_cards_in_deck rt be args =
     bind_r (String_of rt (args (js ''deck''))) (\<lambda>deckName.
       let query = js ''deck:'' @ [DQUOTE] @ deckName @ [DQUOTE]
       in bind_r (findCardsAndOrder be query) (\<lambda>cards.
            pure (JSON_stringify rt (JArr (map card_json cards)))))"

section \<open>The dispatcher\<close>

text \<open>The \<open>switch\<close> on the tool's name, inside the \<open>try\<close> block.\<close>

definition toolBody :: "runtime \<Rightarrow> backend \<Rightarrow> jsstring \<Rightarrow> arguments \<Rightarrow> jsstring result" where
  "toolBody rt be name args =
     (if name = js ''update_cards'' then tool_update_cards rt be args
      else if name = js ''add_card'' then tool_add_card rt be args
      else if name = js ''get_due_cards'' then tool_get_due_cards rt be args
      else if name = js ''get_new_cards'' then tool_get_new_cards rt be args
      else if name = js ''list_decks'' then tool_list_decks rt be args
      else if name = js ''list_decks_with_ids'' then tool_list_decks_with_ids rt be args
      else if name = js ''create_deck'' then tool_create_deck rt be args
      else if name = js ''delete_decks'' then tool_delete_decks rt be args
      else if name = js ''get_deck_stats'' then tool_get_deck_stats rt be args
      else if name = js ''move_cards_to_deck'' then tool_move_cards_to_deck rt be args
      else if name = js ''get_cards_info'' then tool_get_cards_info rt be args
      else if name = js ''suspend_cards'' then tool_suspend_cards rt be args
      else if name = js ''unsuspend_cards'' then tool_unsuspend_cards rt be args
      else if name = js ''check_suspended_status'' then tool_check_suspended_status rt be args
      else if name = js ''check_due_status'' then tool_check_due_status rt be args
      else if name = js ''forget_cards'' then tool_forget_cards rt be args
      else if name = js ''get_ease_factors'' then tool_get_ease_factors rt be args
      else if name = js ''set_ease_factors'' then tool_set_ease_factors rt be args
      else if name = js ''get_all_cards_in_deck'' then tool_get_all_cards_in_deck rt be args
      else throw (js ''Unknown tool: '' @ name))"

text \<open>
  The handler of a tool call: the check of the argument bag, then the \<open>try\<close> block,
  whose \<open>catch\<close> raises a new error around the message of the one it caught. The
  result is the backend calls made and either the message of the error the handler
  raises or the text of the one content block it returns.
\<close>

definition callTool :: "runtime \<Rightarrow> backend \<Rightarrow> jsstring \<Rightarrow> arguments option \<Rightarrow> jsstring result" where
  "callTool rt be name args =
     (case args of
        None \<Rightarrow> throw (js ''No arguments provided for tool: '' @ name)
      | Some a \<Rightarrow>
          (case toolBody rt be name a of
             (calls, Inl message) \<Rightarrow>
               (calls, Inl (js ''Error in tool '' @ name @ js '': '' @ message))
           | (calls, Inr text) \<Rightarrow> (calls, Inr text)))"

section \<open>Notions used in the statements and proofs\<close>

text \<open>The lines cleanWithRegex joins: the trimmed, non-empty segments of a text.\<close>

definition reflow :: "jsstring \<Rightarrow> jsstring list" where
  "reflow s = filter (\<lambda>line. length line > 0) (map trim (split_on NL s))"

definition lines_ok :: "jsstring list \<Rightarrow> bool" where
  "lines_ok L = (\<forall>l\<in>set L. l \<noteq> [] \<and> trim l = l \<and> NL \<notin> set l)"

text \<open>A pattern matches somewhere in a string: at one of its positions, the end included.\<close>

fun matches_in :: "(jsstring \<Rightarrow> jsstring option) \<Rightarrow> jsstring \<Rightarrow> bool" where
  "matches_in m [] = (m [] \<noteq> None)"
| "matches_in m (c # cs) = (m (c # cs) \<noteq> None \<or> matches_in m cs)"

text \<open>One of the nine patterns of cleanWithRegex matches somewhere in a string.\<close>

definition has_markup :: "jsstring \<Rightarrow> bool" where
  "has_markup s =
     (matches_in match_style s \<or> matches_in match_div s \<or> matches_in match_tag s
      \<or> matches_in match_play s
      \<or> matches_in (strip_prefix (js ''&nbsp;'')) s
      \<or> matches_in (strip_prefix (js ''&amp;'')) s
      \<or> matches_in (strip_prefix (js ''&lt;'')) s
      \<or> matches_in (strip_prefix (js ''&gt;'')) s
      \<or> matches_in (strip_prefix (js ''&quot;'')) s)"

text \<open>An answer as the handler's type declares it: \<open>{ cardId: number; ease: number }\<close>.\<close>

definition answer_obj :: "int \<times> int \<Rightarrow> json" where
  "answer_obj a = JObj [(js ''cardId'', num_of_int (fst a)), (js ''ease'', num_of_int (snd a))]"

text \<open>The names of the tools the server lists.\<close>

definition tool_names :: "jsstring list" where
  "tool_names =
     [js ''update_cards'', js ''add_card'', js ''get_due_cards'', js ''get_new_cards'',
      js ''list_decks'', js ''list_decks_with_ids'', js ''create_deck'', js ''delete_decks'',
      js ''get_deck_stats'', js ''move_cards_to_deck'', js ''get_cards_info'',
      js ''suspend_cards'', js ''unsuspend_cards'', js ''check_suspended_status'',
      js ''check_due_status'', js ''forget_cards'', js ''get_ease_factors'',
      js ''set_ease_factors'', js ''get_all_cards_in_deck'']"

section \<open>A fake runtime and backend, for concrete instances\<close>

text \<open>
  A runtime for the instances below. It converts the empty string to 0 and every other
  string to \<open>NaN\<close>, which is what the language does on the strings the instances
  use (none of them is numeric).
\<close>

definition fake_runtime :: runtime where
  "fake_runtime =
     \<lparr>stringToNumber = (\<lambda>s. if s = [] then Finite 0 else NaN),
      numberToString = (\<lambda>r. js ''?''),
      typeErrorMessage = (\<lambda>v p. js ''cannot use '' @ p)\<rparr>"

text \<open>
  A backend that answers every search, every request for details and every batch of
  answers with the given results, and every other operation with an empty result.
\<close>

definition fake_backend ::
  "(jsstring + int list) \<Rightarrow> (jsstring + card_info list) \<Rightarrow> (jsstring + bool list) \<Rightarrow> backend" where
  "fake_backend found infos answered =
     \<lparr>findCards = (\<lambda>q. found),
      cardsInfo = (\<lambda>c. infos),
      answerCards = (\<lambda>a. answered),
      addNote = (\<lambda>d m f b. Inr JNull),
      deckNames = Inr (JArr []),
      deckNamesAndIds = Inr (JObj []),
      createDeck = (\<lambda>d. Inr JNull),
      deleteDecks = (\<lambda>d c. Inr ()),
      getDeckStats = (\<lambda>d. Inr (JObj [])),
      changeDeck = (\<lambda>c d. Inr ()),
      suspend = (\<lambda>c. Inr ()),
      unsuspend = (\<lambda>c. Inr ()),
      areSuspended = (\<lambda>c. Inr (JArr [])),
      areDue = (\<lambda>c. Inr (JArr [])),
      forgetCards = (\<lambda>c. Inr ()),
      getEaseFactors = (\<lambda>c. Inr (JArr [])),
      setEaseFactors = (\<lambda>c e. Inr ())\<rparr>"

definition fake_info :: "int \<Rightarrow> string \<Rightarrow> string \<Rightarrow> int \<Rightarrow> card_info" where
  "fake_info i q a d = \<lparr>cardId = i, question = js q, answer = js a, due = d, raw = JNull\<rparr>"

section \<open>Splitting, joining and trimming\<close>

lemma split_on_not_Nil: "split_on d s \<noteq> []"
  by (induction s) (auto simp: Let_def)

lemma split_on_no_sep: "seg \<in> set (split_on d s) \<Longrightarrow> d \<notin> set seg"
proof (induction s arbitrary: seg)
  case Nil
  then show ?case by simp
next
  case (Cons c cs)
  obtain h t where r: "split_on d cs = h # t"
    using split_on_not_Nil [of d cs] by (cases "split_on d cs") auto
  show ?case
  proof (cases "c = d")
    case True
    with Cons r show ?thesis by auto
  next
    case False
    with Cons r show ?thesis by auto
  qed
qed

lemma split_on_single: "d \<notin> set x \<Longrightarrow> split_on d x = [x]"
  by (induction x) (auto simp: Let_def)

lemma split_on_append: "d \<notin> set x \<Longrightarrow> split_on d (x @ d # rest) = x # split_on d rest"
  by (induction x) (auto simp: Let_def)

lemma split_on_snoc: "split_on d (r @ [d]) = split_on d r @ [[]]"
proof (induction r)
  case Nil
  show ?case by simp
next
  case (Cons c r)
  obtain h t where ht: "split_on d r = h # t"
    using split_on_not_Nil [of d r] by (cases "split_on d r") auto
  with Cons show ?case by (simp add: Let_def)
qed

lemma split_on_join:
  "L \<noteq> [] \<Longrightarrow> (\<forall>l\<in>set L. d \<notin> set l) \<Longrightarrow> split_on d (join [d] L) = L"
  by (induction "[d]" L rule: join.induct) (auto simp: split_on_single split_on_append)

lemma trim_Nil: "trim [] = []"
  by (simp add: trim_def)

lemma trim_fixed:
  assumes "s = [] \<or> (\<not> is_ws (hd s) \<and> \<not> is_ws (last s))"
  shows "trim s = s"
proof (cases "s = []")
  case True
  then show ?thesis by (simp add: trim_def)
next
  case False
  with assms have h: "\<not> is_ws (hd s)" and l: "\<not> is_ws (last s)" by auto
  from False h have "dropWhile is_ws s = s" by (cases s) auto
  moreover from False l have "dropWhile is_ws (rev s) = rev s"
    by (cases "rev s") (auto simp: last_rev hd_rev)
  ultimately show ?thesis by (simp add: trim_def)
qed

lemma trim_ends:
  assumes "trim s \<noteq> []"
  shows "\<not> is_ws (hd (trim s)) \<and> \<not> is_ws (last (trim s))"
proof -
  define t where "t = dropWhile is_ws s"
  define u where "u = dropWhile is_ws (rev t)"
  have tr: "trim s = rev u" by (simp add: trim_def t_def u_def)
  with assms have u: "u \<noteq> []" by simp
  then have t: "t \<noteq> []" by (auto simp: u_def)
  have "\<not> is_ws (hd u)" using u unfolding u_def by (rule hd_dropWhile)
  then have l: "\<not> is_ws (last (rev u))" using u by (simp add: last_rev)
  have "rev t = takeWhile is_ws (rev t) @ u" by (simp add: u_def)
  then have "last (rev t) = last u" using u by (metis last_appendR)
  then have "last u = hd t" using t by (simp add: last_rev)
  moreover have "\<not> is_ws (hd t)" using t unfolding t_def by (rule hd_dropWhile)
  ultimately have "\<not> is_ws (hd (rev u))" using u by (simp add: hd_rev)
  with l tr show ?thesis by simp
qed

lemma trim_idem: "trim (trim s) = trim s"
  by (rule trim_fixed) (use trim_ends [of s] in blast)

lemma set_trim: "set (trim s) \<subseteq> set s"
proof
  fix x assume "x \<in> set (trim s)"
  then have "x \<in> set (dropWhile is_ws (rev (dropWhile is_ws s)))" by (simp add: trim_def)
  then have "x \<in> set (rev (dropWhile is_ws s))" by (rule set_dropWhileD)
  then have "x \<in> set (dropWhile is_ws s)" by simp
  then show "x \<in> set s" by (rule set_dropWhileD)
qed

lemma lines_ok_reflow: "lines_ok (reflow s)"
  unfolding lines_ok_def reflow_def
  using split_on_no_sep [of _ NL s] set_trim by (auto simp: trim_idem)

lemma is_ws_NL: "is_ws NL"
  by (simp add: is_ws_def NL_def)

lemma reflow_join:
  assumes "lines_ok L"
  shows "reflow (join [NL] L) = L"
proof (cases "L = []")
  case True
  then show ?thesis by (simp add: reflow_def trim_def)
next
  case False
  with assms have "split_on NL (join [NL] L) = L"
    by (intro split_on_join) (auto simp: lines_ok_def)
  moreover from assms have "map trim L = L"
    by (auto simp: lines_ok_def intro: map_idI)
  moreover from assms have "filter (\<lambda>line. length line > 0) L = L"
    by (auto simp: lines_ok_def)
  ultimately show ?thesis by (simp add: reflow_def)
qed

lemma join_eq_Nil: "lines_ok L \<Longrightarrow> join [NL] L = [] \<longleftrightarrow> L = []"
  by (induction "[NL]" L rule: join.induct) (auto simp: lines_ok_def)

lemma replace_all_no_match: "\<not> matches_in m s \<Longrightarrow> replace_all m rep s = s"
  by (induction s) auto

lemma cleanWithRegex_lines: "\<exists>L. lines_ok L \<and> cleanWithRegex x = join [NL] L"
proof -
  have "\<exists>s. cleanWithRegex x = join [NL] (reflow s)"
    unfolding cleanWithRegex_def reflow_def Let_def by blast
  then show ?thesis using lines_ok_reflow by blast
qed

lemma cleanWithRegex_no_markup:
  "\<not> has_markup y \<Longrightarrow> cleanWithRegex y = join [NL] (reflow y)"
  by (simp add: has_markup_def cleanWithRegex_def reflow_def replace_all_no_match)

section \<open>String literals\<close>

lemma unat_cu_of_char: "unat (cu_of_char c) = of_char c"
proof -
  have "(of_char c :: nat) < 2 ^ LENGTH(16)"
    by (rule less_trans [OF nat_of_char_less_256]) simp
  then show ?thesis unfolding cu_of_char_def by (rule of_nat_inverse [OF refl])
qed

lemma cu_of_char_eq_iff: "cu_of_char a = cu_of_char b \<longleftrightarrow> a = b"
proof
  assume "cu_of_char a = cu_of_char b"
  then have "unat (cu_of_char a) = unat (cu_of_char b)" by simp
  then show "a = b" by (simp add: unat_cu_of_char)
qed simp

lemma js_eq_iff: "js a = js b \<longleftrightarrow> a = b"
  unfolding js_def by (rule inj_map_eq_map) (simp add: inj_on_def cu_of_char_eq_iff)

lemma js_append: "js (a @ b) = js a @ js b"
  by (simp add: js_def)

section \<open>Computations of the handler\<close>

lemma bind_pure: "bind_r (pure v) f = f v"
  by (simp add: bind_r_def pure_def split: prod.splits)

lemma bind_throw: "bind_r (throw e) f = throw e"
  by (simp add: bind_r_def throw_def)

lemma bind_invoke_Inl: "bind_r (invoke c (Inl e)) f = ([c], Inl e)"
  by (simp add: bind_r_def invoke_def)

lemma bind_invoke_Inr: "bind_r (invoke c (Inr v)) f = (c # fst (f v), snd (f v))"
  by (simp add: bind_r_def invoke_def split: prod.splits)

lemma pure_parts: "fst (pure v) = []" "snd (pure v) = Inr v"
  by (simp_all add: pure_def)

lemma throw_parts: "fst (throw e) = []" "snd (throw e) = Inl e"
  by (simp_all add: throw_def)

lemma strict_equals_lengths:
  "strict_equals (Some (num_of_int (int n))) (Some (num_of_int (int m))) \<longleftrightarrow> n = m"
  by (simp add: strict_equals_def num_of_int_def number_equals_def)

lemma JSON_stringify_empty: "JSON_stringify rt (JArr []) = js ''[]''"
  by (simp add: JSON_stringify_def wrap_items_def js_def)

lemma slice0_NaN: "slice0 NaN xs = []"
  by (simp add: slice0_def slice_end_def)

lemma bind_attempt_Inr: "bind_r (attempt (Inr v)) f = f v"
  by (simp add: bind_r_def attempt_def split: prod.splits)

lemma bind_attempt_Inl: "bind_r (attempt (Inl e)) f = throw e"
  by (simp add: bind_r_def attempt_def throw_def)

text \<open>
  Three instances of the wrapping of errors: a name that is not a tool's, a failure of
  the backend, and an argument that cannot be converted to a number.
\<close>

lemma callTool_unknown_tool:
  assumes "name \<notin> set tool_names"
  shows "callTool rt be name (Some args)
           = ([], Inl (js ''Error in tool '' @ name @ js '': '' @ js ''Unknown tool: '' @ name))"
  using assms by (simp add: tool_names_def callTool_def toolBody_def throw_def)

lemma callTool_backend_error:
  assumes "deckNames be = Inl message"
  shows "callTool rt be (js ''list_decks'') (Some args)
           = ([DeckNames],
              Inl (js ''Error in tool '' @ js ''list_decks'' @ js '': '' @ message))"
  using assms
  by (simp add: callTool_def toolBody_def js_eq_iff tool_list_decks_def bind_invoke_Inl)

lemma callTool_type_error:
  assumes "args (js ''num'') = Some (JObj [(js ''toString'', v)])"
  shows "callTool rt be (js ''get_due_cards'') (Some args)
           = ([], Inl (js ''Error in tool '' @ js ''get_due_cards'' @ js '': ''
                         @ typeErrorMessage rt (Some (JObj [(js ''toString'', v)])) (js ''toString'')))"
  using assms
  by (simp add: callTool_def toolBody_def js_eq_iff tool_get_due_cards_def Number_of_def
        bind_r_def attempt_def)

section \<open>The sort of findCardsAndOrder\<close>

text \<open>With the difference of an integer key as comparator, the sort is the stable sort by that key.\<close>

lemma insort_by_diff: "insort_by (\<lambda>a b. f a - f b) x ys = insort_key f x ys"
  for f :: "'a \<Rightarrow> int"
  by (induction ys) auto

lemma sort_by_diff: "sort_by (\<lambda>a b. f a - f b) xs = sort_key f xs"
  for f :: "'a \<Rightarrow> int"
  by (induction xs) (auto simp: sort_by_def insort_by_diff)

section \<open>The per-item results of update_cards\<close>

lemma filter_zip_map_index:
  "map fst (filter (\<lambda>xi. p (snd xi)) (zip xs ns)) = map fst (filter snd (zip xs (map p ns)))"
proof (induction xs arbitrary: ns)
  case Nil
  show ?case by simp
next
  case (Cons x xs)
  then show ?case by (cases ns) auto
qed

lemma filter_zip_map_snd:
  "map fst (filter snd (zip xs (map q rs))) = map fst (filter (\<lambda>xr. q (snd xr)) (zip xs rs))"
proof (induction xs arbitrary: rs)
  case Nil
  show ?case by simp
next
  case (Cons x xs)
  then show ?case by (cases rs) auto
qed

lemma truthy_at_indices:
  "length rs = length xs \<Longrightarrow> map (\<lambda>i. q (truthy_at rs i)) [0..<length xs] = map q rs"
  by (rule nth_equalityI) (simp_all add: truthy_at_def)

lemma filter_index_results:
  assumes "length rs = length xs"
  shows "filter_index (\<lambda>i. q (truthy_at rs i)) xs = map fst (filter (\<lambda>xr. q (snd xr)) (zip xs rs))"
proof -
  have "filter_index (\<lambda>i. q (truthy_at rs i)) xs
      = map fst (filter snd (zip xs (map (\<lambda>i. q (truthy_at rs i)) [0..<length xs])))"
    unfolding filter_index_def by (rule filter_zip_map_index)
  also have "\<dots> = map fst (filter snd (zip xs (map q rs)))"
    using assms by (simp add: truthy_at_indices)
  also have "\<dots> = map fst (filter (\<lambda>xr. q (snd xr)) (zip xs rs))"
    by (rule filter_zip_map_snd)
  finally show ?thesis .
qed

lemma all_true_keeps_all:
  "length rs = length xs \<Longrightarrow> list_all (\<lambda>r. r) rs \<Longrightarrow> map fst (filter snd (zip xs rs)) = xs"
proof (induction xs arbitrary: rs)
  case Nil
  show ?case by simp
next
  case (Cons x xs)
  then show ?case by (cases rs) auto
qed

lemma all_true_none_failed:
  "length rs = length xs \<Longrightarrow>
   map fst (filter (\<lambda>xr. \<not> snd xr) (zip xs rs)) = [] \<longleftrightarrow> list_all (\<lambda>r. r) rs"
proof (induction xs arbitrary: rs)
  case Nil
  then show ?case by simp
next
  case (Cons x xs)
  then show ?case by (cases rs) auto
qed

lemma cardId_of_answer: "cardId_of rt (answer_obj a) = pure (Some (num_of_int (fst a)))"
  by (simp add: cardId_of_def answer_obj_def)

text \<open>An identifier of magnitude up to \<open>2^53\<close> is printed with its decimal digits.\<close>

lemma number_to_string_safe:
  assumes "\<bar>i\<bar> \<le> 2 ^ 53"
  shows "number_to_string rt (Finite (of_int i)) = show_int i"
proof -
  have "\<bar>(of_int i :: rat)\<bar> \<le> of_int (2 ^ 53)"
    using assms by (simp only: of_int_le_iff flip: of_int_abs)
  then show ?thesis by (simp add: number_to_string_def)
qed

lemma strings_of_ids:
  "strings_of rt (map (\<lambda>a. Some (num_of_int (fst a))) as)
     = Inr (map (\<lambda>a. number_to_string rt (Finite (of_int (fst a)))) as)"
  by (induction as) (simp_all add: num_of_int_def)

lemma join_elems_ids:
  "join_elems rt sep (map (\<lambda>a. Some (num_of_int (fst a))) as)
     = pure (join sep (map (\<lambda>a. number_to_string rt (Finite (of_int (fst a)))) as))"
  by (simp add: join_elems_def strings_of_ids bind_attempt_Inr)

lemma tool_update_cards_eval:
  assumes "args (js ''answers'') = Some (JArr items)"
    and "answerCards be (Some (JArr items)) = Inr result"
    and "map_r (cardId_of rt) (filter_index (\<lambda>index. truthy_at result index) items) = pure okIds"
    and "map_r (cardId_of rt) (filter_index (\<lambda>index. \<not> truthy_at result index) items) = pure badIds"
    and "join_elems rt (js '', '') okIds = pure okText"
    and "join_elems rt (js '', '') badIds = pure badText"
  shows "tool_update_cards rt be args =
     ([AnswerCards (Some (JArr items))],
      if filter_index (\<lambda>index. \<not> truthy_at result index) items \<noteq> []
      then Inl (js ''Failed to update cards with IDs: '' @ badText)
      else Inr (js ''Updated cards '' @ okText))"
  using assms
  by (simp add: tool_update_cards_def bind_invoke_Inr bind_pure pure_parts throw_parts)

section \<open>The claims\<close>

text \<open>
  C1 as stated (cleanWithRegex is idempotent on every input) fails: the entities are
  decoded after the tags are stripped, so a first run can produce markup that a second
  run strips. \<open>&lt;b&gt;\<close> is cleaned to \<open><b>\<close>, and cleaning that gives the
  empty string.
\<close>

theorem cleanWithRegex_not_idempotent:
  "cleanWithRegex (js ''&lt;b&gt;'') = js ''<b>''
   \<and> cleanWithRegex (cleanWithRegex (js ''&lt;b&gt;'')) = []
   \<and> cleanWithRegex (cleanWithRegex (js ''&lt;b&gt;'')) \<noteq> cleanWithRegex (js ''&lt;b&gt;'')"
  by code_simp

text \<open>
  C1, amended. Cleaning a second time changes nothing whenever the first result holds
  no match of any of the nine patterns (no style block, div tag, other tag, play
  directive, or one of the five entities).
\<close>

theorem cleanWithRegex_idempotent_without_markup:
  assumes "\<not> has_markup (cleanWithRegex x)"
  shows "cleanWithRegex (cleanWithRegex x) = cleanWithRegex x"
proof -
  obtain L where L: "lines_ok L" and out: "cleanWithRegex x = join [NL] L"
    using cleanWithRegex_lines by blast
  have "cleanWithRegex (cleanWithRegex x) = join [NL] (reflow (cleanWithRegex x))"
    using assms by (rule cleanWithRegex_no_markup)
  also have "reflow (cleanWithRegex x) = L"
    using L by (simp add: out reflow_join)
  finally show ?thesis by (simp add: out)
qed

theorem cleanWithRegex_idempotent_witness:
  "\<not> has_markup (cleanWithRegex (js ''A<div>B</div>''))
   \<and> cleanWithRegex (cleanWithRegex (js ''A<div>B</div>'')) = cleanWithRegex (js ''A<div>B</div>'')"
proof -
  have h: "\<not> has_markup (cleanWithRegex (js ''A<div>B</div>''))"
    by code_simp
  from h cleanWithRegex_idempotent_without_markup [OF h] show ?thesis
    by (rule conjI)
qed

text \<open>
  C2. When the search returns identifiers and the backend returns detail records for
  them, findCardsAndOrder returns the cleaned records in non-decreasing order of their
  due values, and for every due value the cards with that value stand in the order in
  which the backend returned them.
\<close>

theorem findCardsAndOrder_sorted_stable:
  assumes "findCards be query = Inr ids" and "ids \<noteq> []"
    and "cardsInfo be (Some (JArr (map num_of_int ids))) = Inr infos"
  shows "\<exists>cards. snd (findCardsAndOrder be query) = Inr cards
           \<and> sorted (map due cards)
           \<and> (\<forall>d. filter (\<lambda>c. due c = d) cards
                   = filter (\<lambda>c. due c = d)
                       (map (\<lambda>card. \<lparr>cardId = cardId card,
                                      question = cleanWithRegex (question card),
                                      answer = cleanWithRegex (answer card),
                                      due = due card\<rparr>) infos))"
proof -
  define project :: "card_info \<Rightarrow> Card" where
    "project = (\<lambda>card. \<lparr>cardId = cardId card, question = cleanWithRegex (question card),
                         answer = cleanWithRegex (answer card), due = due card\<rparr>)"
  have res: "snd (findCardsAndOrder be query) = Inr (sort_key due (map project infos))"
    using assms
    by (simp add: findCardsAndOrder_def bind_r_def invoke_def pure_def sort_by_diff project_def)
  have "sorted (map due (sort_key due (map project infos)))"
    by (rule sorted_sort_key)
  moreover have "filter (\<lambda>c. due c = d) (sort_key due (map project infos))
      = filter (\<lambda>c. due c = d) (map project infos)" for d
    by (rule sort_key_stable)
  ultimately show ?thesis using res unfolding project_def by blast
qed

theorem findCardsAndOrder_sorted_stable_witness:
  "\<exists>cards.
     snd (findCardsAndOrder
            (fake_backend (Inr [1, 2, 3])
               (Inr [fake_info 1 ''x'' ''a'' 5, fake_info 2 ''y'' ''b'' 2, fake_info 3 ''z'' ''c'' 5])
               (Inr []))
            (js ''is:due'')) = Inr cards
     \<and> sorted (map due cards) \<and> map cardId cards = [2, 1, 3]"
proof -
  let ?infos = "[fake_info 1 ''x'' ''a'' 5, fake_info 2 ''y'' ''b'' 2, fake_info 3 ''z'' ''c'' 5]"
  let ?be = "fake_backend (Inr [1, 2, 3]) (Inr ?infos) (Inr [])"
  let ?sorted = "sort_by (\<lambda>a b. due a - due b)
      (map (\<lambda>card. \<lparr>cardId = cardId card, question = cleanWithRegex (question card),
                      answer = cleanWithRegex (answer card), due = due card\<rparr>) ?infos)"
  have res: "snd (findCardsAndOrder ?be (js ''is:due'')) = Inr ?sorted"
    by (simp add: findCardsAndOrder_def fake_backend_def bind_invoke_Inr pure_parts)
  have ids: "map cardId ?sorted = [2, 1, 3]"
    by (simp add: sort_by_def fake_info_def)
  have f: "findCards ?be (js ''is:due'') = Inr [1, 2, 3]"
    and i: "cardsInfo ?be (Some (JArr (map num_of_int [1, 2, 3]))) = Inr ?infos"
    by (simp_all add: fake_backend_def)
  from findCardsAndOrder_sorted_stable [OF f _ i]
  obtain cards where r: "snd (findCardsAndOrder ?be (js ''is:due'')) = Inr cards"
    and s: "sorted (map due cards)"
    by auto
  from r res have "cards = ?sorted" by simp
  with ids have "map cardId cards = [2, 1, 3]" by simp
  with r s show ?thesis by (intro exI [of _ cards] conjI)
qed




text \<open>
  C4. For update_cards, with an answers list and one boolean result of the backend per
  answer: when every result is true the invocation succeeds with the message that lists
  the identifiers of all the cards; otherwise it fails with the error that lists the
  identifiers of exactly the answers whose result is false, in their order. One backend
  call is made in both cases. The identifiers are printed as the language prints
  numbers: with their decimal digits up to \<open>2^53\<close> in magnitude, by the runtime
  beyond.
\<close>

theorem update_cards_all_or_error:
  assumes "args (js ''answers'') = Some (JArr (map answer_obj answers))"
    and "answerCards be (Some (JArr (map answer_obj answers))) = Inr result"
    and "length result = length answers"
  shows "callTool rt be (js ''update_cards'') (Some args) =
     ([AnswerCards (Some (JArr (map answer_obj answers)))],
      if list_all (\<lambda>r. r) result
      then Inr (js ''Updated cards ''
                  @ join (js '', '') (map (\<lambda>a. number_to_string rt (Finite (of_int (fst a)))) answers))
      else Inl (js ''Error in tool '' @ js ''update_cards'' @ js '': ''
                  @ js ''Failed to update cards with IDs: ''
                  @ join (js '', '')
                      (map (\<lambda>a. number_to_string rt (Finite (of_int (fst a))))
                         (map fst (filter (\<lambda>ar. \<not> snd ar) (zip answers result))))))"
proof -
  let ?items = "map answer_obj answers"
  let ?id = "\<lambda>a. Some (num_of_int (fst a))"
  let ?S = "map fst (filter snd (zip answers result))"
  let ?F = "map fst (filter (\<lambda>ar. \<not> snd ar) (zip answers result))"
  have len: "length result = length ?items" using assms(3) by simp
  have ok: "filter_index (\<lambda>index. truthy_at result index) ?items = map answer_obj ?S"
    using filter_index_results [OF len, of "\<lambda>b. b"]
    by (simp add: zip_map1 filter_map comp_def case_prod_beta)
  have bad: "filter_index (\<lambda>index. \<not> truthy_at result index) ?items = map answer_obj ?F"
    using filter_index_results [OF len, of "\<lambda>b. \<not> b"]
    by (simp add: zip_map1 filter_map comp_def case_prod_beta)
  have ids: "map_r (cardId_of rt) (map answer_obj xs) = pure (map ?id xs)" for xs
    by (induction xs) (simp_all add: bind_pure cardId_of_answer)
  have okIds: "map_r (cardId_of rt) (filter_index (\<lambda>index. truthy_at result index) ?items)
      = pure (map ?id ?S)"
    by (simp only: ok ids)
  have badIds: "map_r (cardId_of rt) (filter_index (\<lambda>index. \<not> truthy_at result index) ?items)
      = pure (map ?id ?F)"
    by (simp only: bad ids)
  have failed: "filter_index (\<lambda>index. \<not> truthy_at result index) ?items \<noteq> []
      \<longleftrightarrow> \<not> list_all (\<lambda>r. r) result"
    using all_true_none_failed [OF assms(3)] by (simp only: bad map_is_Nil_conv)
  have all: "?S = answers" if "list_all (\<lambda>r. r) result"
    using all_true_keeps_all [OF assms(3) that] .
  have disp: "toolBody rt be (js ''update_cards'') args = tool_update_cards rt be args"
    by (simp add: toolBody_def)
  have body: "toolBody rt be (js ''update_cards'') args =
     ([AnswerCards (Some (JArr ?items))],
      if \<not> list_all (\<lambda>r. r) result
      then Inl (js ''Failed to update cards with IDs: ''
                  @ join (js '', '') (map (\<lambda>a. number_to_string rt (Finite (of_int (fst a)))) ?F))
      else Inr (js ''Updated cards ''
                  @ join (js '', '') (map (\<lambda>a. number_to_string rt (Finite (of_int (fst a)))) ?S)))"
    using tool_update_cards_eval
      [where args = args and be = be and rt = rt and items = ?items and result = result,
       OF assms(1,2) okIds badIds join_elems_ids join_elems_ids]
    by (simp only: failed disp)
  show ?thesis
  proof (cases "list_all (\<lambda>r. r) result")
    case True
    then show ?thesis
      by (simp add: callTool_def body all)
  next
    case False
    then show ?thesis
      by (simp add: callTool_def body)
  qed
qed

theorem update_cards_all_or_error_witness:
  "callTool fake_runtime (fake_backend (Inr []) (Inr []) (Inr [True, False, True]))
     (js ''update_cards'')
     (Some ((\<lambda>k. None)(js ''answers'' \<mapsto> JArr (map answer_obj [(11, 3), (12, 1), (13, 4)]))))
   = ([AnswerCards (Some (JArr (map answer_obj [(11, 3), (12, 1), (13, 4)])))],
      Inl (js ''Error in tool update_cards: Failed to update cards with IDs: 12''))"
proof -
  have s: "number_to_string fake_runtime (Finite 12) = js ''12''"
    by code_simp
  show ?thesis
    using update_cards_all_or_error
      [where rt = fake_runtime and be = "fake_backend (Inr []) (Inr []) (Inr [True, False, True])"
         and args = "(\<lambda>k. None)(js ''answers'' \<mapsto> JArr (map answer_obj [(11, 3), (12, 1), (13, 4)]))"
         and answers = "[(11, 3), (12, 1), (13, 4)]" and result = "[True, False, True]"]
    by (simp add: fake_backend_def s) (simp add: js_def)
qed

text \<open>
  C5. For set_ease_factors, when the cards array and the easeFactors array differ in
  length, the invocation fails with the validation error, and no backend call is made.
\<close>

theorem set_ease_factors_length_mismatch:
  assumes "args (js ''cards'') = Some (JArr cards)"
    and "args (js ''easeFactors'') = Some (JArr easeFactors)"
    and "length cards \<noteq> length easeFactors"
  shows "callTool rt be (js ''set_ease_factors'') (Some args)
           = ([], Inl (js ''Error in tool '' @ js ''set_ease_factors'' @ js '': ''
                         @ js ''Cards and easeFactors arrays must have the same length''))"
proof -
  have "toolBody rt be (js ''set_ease_factors'') args = tool_set_ease_factors rt be args"
    by (simp add: toolBody_def js_eq_iff)
  also have "\<dots> = throw (js ''Cards and easeFactors arrays must have the same length'')"
    using assms
    by (simp add: tool_set_ease_factors_def length_of_def bind_pure strict_equals_lengths)
  finally show ?thesis by (simp add: callTool_def throw_def)
qed

theorem set_ease_factors_length_mismatch_witness:
  "callTool fake_runtime (fake_backend (Inr []) (Inr []) (Inr [])) (js ''set_ease_factors'')
     (Some ((\<lambda>k. None)(js ''cards'' \<mapsto> JArr [num_of_int 1, num_of_int 2, num_of_int 3],
                         js ''easeFactors'' \<mapsto> JArr [num_of_int 2500, num_of_int 2300])))
   = ([], Inl (js ''Error in tool '' @ js ''set_ease_factors'' @ js '': ''
                 @ js ''Cards and easeFactors arrays must have the same length''))"
  by (rule set_ease_factors_length_mismatch
        [where cards = "[num_of_int 1, num_of_int 2, num_of_int 3]"
           and easeFactors = "[num_of_int 2500, num_of_int 2300]"])
     (simp_all add: js_eq_iff)

text \<open>
  C6. Whatever the tool name, known or not, an invocation without an argument bag fails
  with the error \<open>No arguments provided for tool: {name}\<close>, and no backend call
  is made.
\<close>

theorem callTool_without_arguments:
  "callTool rt be name None = ([], Inl (js ''No arguments provided for tool: '' @ name))"
  by (simp add: callTool_def throw_def)

text \<open>
  C7. When the backend's search returns no identifier, findCardsAndOrder returns the
  empty sequence, raises no error, and makes no call but the search.
\<close>

theorem findCardsAndOrder_no_matches:
  assumes "findCards be query = Inr []"
  shows "findCardsAndOrder be query = ([FindCards query], Inr [])"
  using assms by (simp add: findCardsAndOrder_def bind_invoke_Inr pure_def)

theorem findCardsAndOrder_no_matches_witness:
  "findCardsAndOrder (fake_backend (Inr []) (Inl (js ''not called'')) (Inr [])) (js ''is:due'')
     = ([FindCards (js ''is:due'')], Inr [])"
  by (rule findCardsAndOrder_no_matches) (simp add: fake_backend_def)

text \<open>
  C8. cleanWithRegex maps \<open>A<div>B</div>\<close> to \<open>A\<close>, a newline and \<open>B\<close>: the
  opening tag becomes a newline, the closing tag a space that the trimming of the line
  removes.
\<close>

theorem cleanWithRegex_div_example:
  "cleanWithRegex (js ''A<div>B</div>'') = js ''A'' @ [NL] @ js ''B''"
  by code_simp

text \<open>
  C9 as stated (every segment of the result split on the newline is non-empty) fails
  where the result is the empty string: splitting the empty string gives one segment,
  which is empty.
\<close>

theorem cleanWithRegex_empty_segment:
  "split_on NL (cleanWithRegex []) = [[]]
   \<and> \<not> (\<forall>seg\<in>set (split_on NL (cleanWithRegex [])). seg \<noteq> [] \<and> trim seg = seg)"
  by code_simp

text \<open>
  C9, amended. Unless the result of cleanWithRegex is the empty string, every segment
  of its split on the newline is non-empty and equal to its own trim; and no result
  starts or ends with a newline.
\<close>

theorem cleanWithRegex_segments:
  "(cleanWithRegex x = []
      \<or> (\<forall>seg\<in>set (split_on NL (cleanWithRegex x)). seg \<noteq> [] \<and> trim seg = seg))
   \<and> (\<forall>r. cleanWithRegex x \<noteq> NL # r) \<and> (\<forall>r. cleanWithRegex x \<noteq> r @ [NL])"
proof -
  obtain L where L: "lines_ok L" and out: "cleanWithRegex x = join [NL] L"
    using cleanWithRegex_lines by blast
  have split: "split_on NL (cleanWithRegex x) = L" if "L \<noteq> []"
    using that L by (simp add: out split_on_join lines_ok_def)
  have nonempty: "[] \<notin> set L"
    using L by (auto simp: lines_ok_def)
  have first: "cleanWithRegex x = []
      \<or> (\<forall>seg\<in>set (split_on NL (cleanWithRegex x)). seg \<noteq> [] \<and> trim seg = seg)"
  proof (cases "L = []")
    case True
    then show ?thesis by (simp add: out)
  next
    case False
    then show ?thesis using L by (simp add: split lines_ok_def)
  qed
  have starts: "cleanWithRegex x \<noteq> NL # r" for r
  proof
    assume eq: "cleanWithRegex x = NL # r"
    then have "L \<noteq> []" by (auto simp: out)
    then have "L = split_on NL (NL # r)" using split eq by simp
    then have "[] \<in> set L" by (simp add: Let_def)
    with nonempty show False by simp
  qed
  have ends: "cleanWithRegex x \<noteq> r @ [NL]" for r
  proof
    assume eq: "cleanWithRegex x = r @ [NL]"
    then have "L \<noteq> []" by (auto simp: out)
    then have "L = split_on NL (r @ [NL])" using split eq by simp
    then have "[] \<in> set L" by (simp add: split_on_snoc)
    with nonempty show False by simp
  qed
  from first starts ends show ?thesis by blast
qed

theorem cleanWithRegex_segments_witness:
  "cleanWithRegex (js '' a <b>c</b><div> d '') \<noteq> []
   \<and> list_all (\<lambda>seg. seg \<noteq> [] \<and> trim seg = seg)
        (split_on NL (cleanWithRegex (js '' a <b>c</b><div> d '')))"
proof -
  have h: "cleanWithRegex (js '' a <b>c</b><div> d '') \<noteq> []"
    by code_simp
  with cleanWithRegex_segments [of "js '' a <b>c</b><div> d ''"] show ?thesis
    by (simp add: list_all_iff)
qed

text \<open>
  C10. For get_due_cards and get_new_cards, when \<open>Number(args.num)\<close> returns
  \<open>NaN\<close> (as it does for an absent \<open>num\<close> and for a string that is not
  numeric) the invocation raises no validation error: it makes the calls of
  findCardsAndOrder, and when that succeeds it succeeds with the text \<open>[]\<close>,
  whatever cards were found; it fails only with the error of findCardsAndOrder.
\<close>

theorem get_cards_nan_gives_empty_array:
  assumes "Number_of rt (args (js ''num'')) = pure NaN"
  shows "callTool rt be (js ''get_due_cards'') (Some args)
           = (case findCardsAndOrder be (js ''is:due'') of
                (calls, Inl message) \<Rightarrow>
                  (calls, Inl (js ''Error in tool '' @ js ''get_due_cards'' @ js '': '' @ message))
              | (calls, Inr cards) \<Rightarrow> (calls, Inr (js ''[]'')))
       \<and> callTool rt be (js ''get_new_cards'') (Some args)
           = (case findCardsAndOrder be (js ''is:new'') of
                (calls, Inl message) \<Rightarrow>
                  (calls, Inl (js ''Error in tool '' @ js ''get_new_cards'' @ js '': '' @ message))
              | (calls, Inr cards) \<Rightarrow> (calls, Inr (js ''[]'')))"
proof -
  have due: "toolBody rt be (js ''get_due_cards'') args
      = bind_r (findCardsAndOrder be (js ''is:due'')) (\<lambda>cards. pure (js ''[]''))"
    using assms
    by (simp add: toolBody_def js_eq_iff tool_get_due_cards_def bind_pure slice0_NaN
          JSON_stringify_empty)
  have new: "toolBody rt be (js ''get_new_cards'') args
      = bind_r (findCardsAndOrder be (js ''is:new'')) (\<lambda>cards. pure (js ''[]''))"
    using assms
    by (simp add: toolBody_def js_eq_iff tool_get_new_cards_def bind_pure slice0_NaN
          JSON_stringify_empty)
  show ?thesis
    unfolding callTool_def option.case due new
    by (auto simp: bind_r_def pure_def split: prod.splits sum.splits)
qed

theorem get_cards_nan_witness:
  "callTool fake_runtime (fake_backend (Inr [7]) (Inr [fake_info 7 ''q'' ''a'' 3]) (Inr []))
     (js ''get_due_cards'') (Some (\<lambda>k. None))
   = ([FindCards (js ''is:due''), CardsInfo (Some (JArr [num_of_int 7]))], Inr (js ''[]''))
   \<and> callTool fake_runtime (fake_backend (Inr [7]) (Inr [fake_info 7 ''q'' ''a'' 3]) (Inr []))
     (js ''get_new_cards'') (Some ((\<lambda>k. None)(js ''num'' \<mapsto> JStr (js ''many''))))
   = ([FindCards (js ''is:new''), CardsInfo (Some (JArr [num_of_int 7]))], Inr (js ''[]''))"
proof -
  let ?be = "fake_backend (Inr [7]) (Inr [fake_info 7 ''q'' ''a'' 3]) (Inr [])"
  have a: "Number_of fake_runtime ((\<lambda>k. None) (js ''num'')) = pure NaN"
    by (simp add: Number_of_def)
  let ?args = "(\<lambda>k. None)(js ''num'' \<mapsto> JStr (js ''many''))"
  have b: "Number_of fake_runtime (?args (js ''num'')) = pure NaN"
    by (simp add: Number_of_def fake_runtime_def js_def)
  have c: "fst (findCardsAndOrder ?be q) = [FindCards q, CardsInfo (Some (JArr [num_of_int 7]))]
      \<and> (\<exists>cards. snd (findCardsAndOrder ?be q) = Inr cards)" for q
    by (simp add: findCardsAndOrder_def fake_backend_def bind_invoke_Inr pure_def)
  from get_cards_nan_gives_empty_array [where rt = fake_runtime and args = "\<lambda>k. None" and be = ?be, OF a]
       get_cards_nan_gives_empty_array [where rt = fake_runtime and args = ?args and be = ?be, OF b]
       c [of "js ''is:due''"] c [of "js ''is:new''"]
  show ?thesis
    by (auto split: prod.splits sum.splits)
qed

end
